theory Spec2Isabelle
  imports Main
begin

section \<open>The ONBUILD build strategy (pkg/build/strategies/onbuild/onbuild.go)\<close>

text \<open>
  The strategy drives four injected collaborators (the Docker client, the Git client,
  the filesystem utility and the tar packager), the package function
  \<open>GuessEntrypoint\<close>, the \<open>Close\<close> method of the stream it obtains, and
  \<open>filepath.Join\<close>. None of them is defined in \<open>onbuild.go\<close>, so each one is a
  parameter of the model: a function on an arbitrary world \<open>'w\<close> that returns its Go
  result together with the world it leaves behind. Nothing is assumed about their
  behaviour.

  Go's \<open>error\<close> results are \<open>error option\<close> (\<open>None\<close> is \<open>nil\<close>). A Go pair
  \<open>(value, error)\<close> returned by a collaborator is \<open>error + value\<close>: the strategy reads
  the value only after it has seen \<open>err == nil\<close>. \<open>Build\<close> itself returns the pair
  \<open>(*api.Result, error)\<close> as a pair of options, as the code writes both components.
  The \<open>glog\<close> lines have no effect on what is modelled and are left out.
\<close>

subsection \<open>Data\<close>

datatype error = Error string

text \<open>\<open>io.ReadCloser\<close>: the handle of an open stream; \<open>os.Stdout\<close> is the only writer used.\<close>

datatype ReadCloser = ReadCloser nat

datatype Writer = os_Stdout

text \<open>\<open>api.Result\<close> and the fields of \<open>api.Request\<close> that the strategy touches.\<close>

record Result =
  Success :: bool
  WorkingDir :: string
  ImageID :: string

record Request =
  DockerSocket :: string
  BaseImage :: string
  Source :: string
  Ref :: string
  Tag :: string
  ForcePull :: bool
  PreserveWorkingDir :: bool
  WorkingDir :: string

record BuildImageOptions =
  Name :: string
  Stdin :: ReadCloser
  Stdout :: Writer

subsection \<open>Collaborators\<close>

text \<open>
  The results of \<open>PullImage\<close> and \<open>CheckAndPull\<close> are thrown away by the strategy; only
  their error component is kept in the model.
\<close>

record 'w Docker =
  PullImage :: "string \<Rightarrow> 'w \<Rightarrow> error option \<times> 'w"
  CheckAndPull :: "string \<Rightarrow> 'w \<Rightarrow> error option \<times> 'w"
  BuildImage :: "BuildImageOptions \<Rightarrow> 'w \<Rightarrow> error option \<times> 'w"

record 'w Git =
  ValidCloneSpec :: "string \<Rightarrow> 'w \<Rightarrow> bool \<times> 'w"
  Clone :: "string \<Rightarrow> string \<Rightarrow> 'w \<Rightarrow> error option \<times> 'w"
  Checkout :: "string \<Rightarrow> string \<Rightarrow> 'w \<Rightarrow> error option \<times> 'w"

record 'w FileSystem =
  CreateWorkingDirectory :: "'w \<Rightarrow> (error + string) \<times> 'w"
  Copy :: "string \<Rightarrow> string \<Rightarrow> 'w \<Rightarrow> error option \<times> 'w"
  WriteFile :: "string \<Rightarrow> string \<Rightarrow> 'w \<Rightarrow> error option \<times> 'w"
  RemoveDirectory :: "string \<Rightarrow> 'w \<Rightarrow> error option \<times> 'w"
  Open :: "string \<Rightarrow> 'w \<Rightarrow> (error + ReadCloser) \<times> 'w"

record 'w Tar =
  CreateTarFile :: "string \<Rightarrow> string \<Rightarrow> 'w \<Rightarrow> (error + string) \<times> 'w"

text \<open>The struct \<open>OnBuild\<close>.\<close>

record 'w OnBuild =
  docker :: "'w Docker"
  git :: "'w Git"
  fs :: "'w FileSystem"
  tar :: "'w Tar"

text \<open>What the strategy uses beyond its own fields.\<close>

record 'w Extern =
  GuessEntrypoint :: "string \<Rightarrow> 'w \<Rightarrow> (error + string) \<times> 'w"
  Close :: "ReadCloser \<Rightarrow> 'w \<Rightarrow> error option \<times> 'w"
  filepath_Join :: "string list \<Rightarrow> string"

subsection \<open>Execution state\<close>

text \<open>
  Every effect of the strategy that its caller or its collaborators can observe is an
  event: a call of a collaborator, with its arguments and the result it returned, and
  the one write to the request object, which belongs to the caller. The execution state
  is the world together with the events so far, oldest first.
\<close>

datatype event =
    CallPullImage string "error option"
  | CallCheckAndPull string "error option"
  | CallBuildImage BuildImageOptions "error option"
  | CallValidCloneSpec string bool
  | CallClone string string "error option"
  | CallCheckout string string "error option"
  | CallCreateWorkingDirectory "error + string"
  | CallCopy string string "error option"
  | CallWriteFile string string "error option"
  | CallRemoveDirectory string "error option"
  | CallOpen string "error + ReadCloser"
  | CallCreateTarFile string string "error + string"
  | CallGuessEntrypoint string "error + string"
  | CallClose ReadCloser "error option"
  | SetWorkingDir string

record 'w exec =
  world :: 'w
  trace :: "event list"

definition invoke ::
  "('a \<Rightarrow> event) \<Rightarrow> ('w \<Rightarrow> 'a \<times> 'w) \<Rightarrow> 'w exec \<Rightarrow> 'a \<times> 'w exec"
where
  "invoke c f s =
     (case f (world s) of (r, w') \<Rightarrow> (r, \<lparr>world = w', trace = trace s @ [c r]\<rparr>))"

definition record_event :: "event \<Rightarrow> 'w exec \<Rightarrow> 'w exec" where
  "record_event c s = s\<lparr>trace := trace s @ [c]\<rparr>"

text \<open>The events of a run from \<open>s\<close> to \<open>s'\<close>.\<close>

definition issued :: "'w exec \<Rightarrow> 'w exec \<Rightarrow> event list" where
  "issued s s' = drop (length (trace s)) (trace s')"

subsection \<open>The strategy\<close>

text \<open>\<open>fmt.Sprintf("FROM %s\n", _)\<close> and \<open>fmt.Sprintf(`CMD ["%s"]`+"\n", _)\<close>.\<close>

definition Sprintf_FROM :: "string \<Rightarrow> string" where
  "Sprintf_FROM baseImage = ''FROM '' @ baseImage @ [CHR 0x0A]"

definition Sprintf_CMD :: "string \<Rightarrow> string" where
  "Sprintf_CMD entrypoint =
     ''CMD ['' @ [CHR 0x22] @ entrypoint @ [CHR 0x22] @ '']'' @ [CHR 0x0A]"

text \<open>
  The request is passed by pointer: every function takes it and returns it as it is
  when the function returns.
\<close>

definition SourceTar ::
  "'w Extern \<Rightarrow> 'w OnBuild \<Rightarrow> 'r Request_scheme \<Rightarrow> 'w exec \<Rightarrow>
     (error + ReadCloser) \<times> 'r Request_scheme \<times> 'w exec"
where
  "SourceTar x b request s =
     (let uploadDir = filepath_Join x [Request.WorkingDir request, ''upload'', ''src''] in
      case invoke (CallCreateTarFile (Request.WorkingDir request) uploadDir)
             (CreateTarFile (tar b) (Request.WorkingDir request) uploadDir) s of
        (Inl err, s1) \<Rightarrow> (Inl err, request, s1)
      | (Inr tarFileName, s1) \<Rightarrow>
          (case invoke (CallOpen tarFileName) (Open (fs b) tarFileName) s1 of
             (r, s2) \<Rightarrow> (r, request, s2)))"

definition CreateDockerfile ::
  "'w Extern \<Rightarrow> 'w OnBuild \<Rightarrow> 'r Request_scheme \<Rightarrow> 'w exec \<Rightarrow>
     error option \<times> 'r Request_scheme \<times> 'w exec"
where
  "CreateDockerfile x b request s =
     (let uploadDir = filepath_Join x [Request.WorkingDir request, ''upload'', ''src''];
          buffer = Sprintf_FROM (BaseImage request) in
      case invoke (CallGuessEntrypoint uploadDir) (GuessEntrypoint x uploadDir) s of
        (Inl err, s1) \<Rightarrow> (Some err, request, s1)
      | (Inr entrypoint, s1) \<Rightarrow>
          (let buffer = buffer @ Sprintf_CMD entrypoint;
               path = filepath_Join x [uploadDir, ''Dockerfile''] in
           case invoke (CallWriteFile path buffer) (WriteFile (fs b) path buffer) s1 of
             (r, s2) \<Rightarrow> (r, request, s2)))"

definition Prepare ::
  "'w Extern \<Rightarrow> 'w OnBuild \<Rightarrow> 'r Request_scheme \<Rightarrow> 'w exec \<Rightarrow>
     error option \<times> 'r Request_scheme \<times> 'w exec"
where
  "Prepare x b request s =
     (let s1 = (if ForcePull request
                then snd (invoke (CallPullImage (BaseImage request))
                            (PullImage (docker b) (BaseImage request)) s)
                else snd (invoke (CallCheckAndPull (BaseImage request))
                            (CheckAndPull (docker b) (BaseImage request)) s)) in
      case invoke CallCreateWorkingDirectory (CreateWorkingDirectory (fs b)) s1 of
        (Inl err, s2) \<Rightarrow> (Some err, request, s2)
      | (Inr tempDir, s2) \<Rightarrow>
          (let request = request\<lparr>Request.WorkingDir := tempDir\<rparr>;
               s3 = record_event (SetWorkingDir tempDir) s2;
               targetSourceDir =
                 filepath_Join x [Request.WorkingDir request, ''upload'', ''src''] in
           case invoke (CallValidCloneSpec (Source request))
                  (ValidCloneSpec (git b) (Source request)) s3 of
             (False, s4) \<Rightarrow>
               (case invoke (CallCopy (Source request) targetSourceDir)
                       (Copy (fs b) (Source request) targetSourceDir) s4 of
                  (r, s5) \<Rightarrow> (r, request, s5))
           | (True, s4) \<Rightarrow>
               (case invoke (CallClone (Source request) targetSourceDir)
                       (Clone (git b) (Source request) targetSourceDir) s4 of
                  (Some err, s5) \<Rightarrow> (Some err, request, s5)
                | (None, s5) \<Rightarrow>
                    if length (Ref request) = 0 then (None, request, s5)
                    else (case invoke (CallCheckout targetSourceDir (Ref request))
                                 (Checkout (git b) targetSourceDir (Ref request)) s5 of
                            (r, s6) \<Rightarrow> (r, request, s6)))))"

definition Cleanup ::
  "'w OnBuild \<Rightarrow> 'r Request_scheme \<Rightarrow> 'w exec \<Rightarrow> 'r Request_scheme \<times> 'w exec"
where
  "Cleanup b request s =
     (if PreserveWorkingDir request then (request, s)
      else (request,
            snd (invoke (CallRemoveDirectory (Request.WorkingDir request))
                   (RemoveDirectory (fs b) (Request.WorkingDir request)) s)))"

text \<open>
  \<open>defer tarStream.Close()\<close> is registered once \<open>SourceTar\<close> has succeeded, so \<open>Close\<close>
  runs on the two returns after that point, after the returned values have been
  evaluated.
\<close>

definition Build ::
  "'w Extern \<Rightarrow> 'w OnBuild \<Rightarrow> 'r Request_scheme \<Rightarrow> 'w exec \<Rightarrow>
     (Result option \<times> error option) \<times> 'r Request_scheme \<times> 'w exec"
where
  "Build x b request s =
     (case Prepare x b request s of
        (Some err, request, s1) \<Rightarrow> ((None, Some err), request, s1)
      | (None, request, s1) \<Rightarrow>
     (case CreateDockerfile x b request s1 of
        (Some err, request, s2) \<Rightarrow> ((None, Some err), request, s2)
      | (None, request, s2) \<Rightarrow>
     (case SourceTar x b request s2 of
        (Inl err, request, s3) \<Rightarrow> ((None, Some err), request, s3)
      | (Inr tarStream, request, s3) \<Rightarrow>
     (let opts = \<lparr>Name = Tag request, Stdin = tarStream, Stdout = os_Stdout\<rparr> in
      case invoke (CallBuildImage opts) (BuildImage (docker b) opts) s3 of
        (Some err, s4) \<Rightarrow>
          ((None, Some err), request, snd (invoke (CallClose tarStream) (Close x tarStream) s4))
      | (None, s4) \<Rightarrow>
          (case Cleanup b request s4 of
             (request, s5) \<Rightarrow>
               (let result = \<lparr>Success = True,
                              Result.WorkingDir = Request.WorkingDir request,
                              ImageID = Name opts\<rparr> in
                ((Some result, None), request,
                 snd (invoke (CallClose tarStream) (Close x tarStream) s5))))))))"

subsection \<open>Reading a trace\<close>

text \<open>
  The image acquisition call that \<open>Prepare\<close> makes first: \<open>PullImage\<close> when
  \<open>ForcePull\<close> is set, \<open>CheckAndPull\<close> otherwise, on the base image.
\<close>

definition pull_event :: "'r Request_scheme \<Rightarrow> error option \<Rightarrow> event" where
  "pull_event request =
     (if ForcePull request then CallPullImage (BaseImage request)
      else CallCheckAndPull (BaseImage request))"

text \<open>The directories on which \<open>RemoveDirectory\<close> was called, in order.\<close>

fun removals :: "event list \<Rightarrow> string list" where
  "removals [] = []"
| "removals (CallRemoveDirectory d r # evs) = d # removals evs"
| "removals (ev # evs) = removals evs"

text \<open>The values written to \<open>request.WorkingDir\<close>, in order.\<close>

fun assignments :: "event list \<Rightarrow> string list" where
  "assignments [] = []"
| "assignments (SetWorkingDir d # evs) = d # assignments evs"
| "assignments (ev # evs) = assignments evs"

text \<open>The arguments of the \<open>Copy\<close>, \<open>Clone\<close>, \<open>Checkout\<close> and \<open>BuildImage\<close> calls.\<close>

fun copies :: "event list \<Rightarrow> (string \<times> string) list" where
  "copies [] = []"
| "copies (CallCopy src dst r # evs) = (src, dst) # copies evs"
| "copies (ev # evs) = copies evs"

fun clones :: "event list \<Rightarrow> (string \<times> string) list" where
  "clones [] = []"
| "clones (CallClone src dst r # evs) = (src, dst) # clones evs"
| "clones (ev # evs) = clones evs"

fun checkouts :: "event list \<Rightarrow> (string \<times> string) list" where
  "checkouts [] = []"
| "checkouts (CallCheckout dir ref r # evs) = (dir, ref) # checkouts evs"
| "checkouts (ev # evs) = checkouts evs"

fun builds :: "event list \<Rightarrow> BuildImageOptions list" where
  "builds [] = []"
| "builds (CallBuildImage opts r # evs) = opts # builds evs"
| "builds (ev # evs) = builds evs"

text \<open>
  A call made by descriptor synthesis or packaging is located under \<open>d\<close> when its path
  arguments are the ones these phases compute from \<open>request.WorkingDir = d\<close>. Other
  events satisfy the predicate trivially.
\<close>

fun located_under :: "(string list \<Rightarrow> string) \<Rightarrow> string \<Rightarrow> event \<Rightarrow> bool" where
  "located_under J d (CallGuessEntrypoint p r) = (p = J [d, ''upload'', ''src''])"
| "located_under J d (CallWriteFile p c r) =
     (p = J [J [d, ''upload'', ''src''], ''Dockerfile''])"
| "located_under J d (CallCreateTarFile root dir r) =
     (root = d \<and> dir = J [d, ''upload'', ''src''])"
| "located_under J d ev = True"

subsection \<open>A concrete set of collaborators\<close>

text \<open>
  To run the model, the world is the list of directories that exist, and the
  collaborators return what a table of outcomes tells them to. \<open>CreateWorkingDirectory\<close>
  adds the directory it returns, \<open>RemoveDirectory\<close> deletes its argument, and a source
  is a clone specification when it starts with \<open>git://\<close>.
\<close>

record outcomes =
  on_pull :: "error option"
  on_mkdir :: "error + string"
  on_copy :: "error option"
  on_clone :: "error option"
  on_checkout :: "error option"
  on_guess :: "error + string"
  on_build :: "error option"

definition sim_docker :: "outcomes \<Rightarrow> string list Docker" where
  "sim_docker oc =
     \<lparr>PullImage = (\<lambda>name w. (on_pull oc, w)),
      CheckAndPull = (\<lambda>name w. (on_pull oc, w)),
      BuildImage = (\<lambda>opts w. (on_build oc, w))\<rparr>"

definition sim_git :: "outcomes \<Rightarrow> string list Git" where
  "sim_git oc =
     \<lparr>ValidCloneSpec = (\<lambda>src w. (take 6 src = ''git://'', w)),
      Clone = (\<lambda>src dst w. (on_clone oc, w)),
      Checkout = (\<lambda>dir ref w. (on_checkout oc, w))\<rparr>"

definition sim_fs :: "outcomes \<Rightarrow> string list FileSystem" where
  "sim_fs oc =
     \<lparr>CreateWorkingDirectory =
        (\<lambda>w. (on_mkdir oc, case on_mkdir oc of Inl e \<Rightarrow> w | Inr d \<Rightarrow> d # w)),
      Copy = (\<lambda>src dst w. (on_copy oc, w)),
      WriteFile = (\<lambda>path bytes w. (None, w)),
      RemoveDirectory = (\<lambda>d w. (None, removeAll d w)),
      Open = (\<lambda>path w. (Inr (ReadCloser 3), w))\<rparr>"

definition sim_tar :: "string list Tar" where
  "sim_tar = \<lparr>CreateTarFile = (\<lambda>root dir w. (Inr ''/tmp/sti.tar'', w))\<rparr>"

definition sim_b :: "outcomes \<Rightarrow> string list OnBuild" where
  "sim_b oc = \<lparr>docker = sim_docker oc, git = sim_git oc, fs = sim_fs oc, tar = sim_tar\<rparr>"

fun sim_Join :: "string list \<Rightarrow> string" where
  "sim_Join [] = []"
| "sim_Join [p] = p"
| "sim_Join (p # ps) = p @ ''/'' @ sim_Join ps"

definition sim_x :: "outcomes \<Rightarrow> string list Extern" where
  "sim_x oc =
     \<lparr>GuessEntrypoint = (\<lambda>dir w. (on_guess oc, w)),
      Close = (\<lambda>stream w. (None, w)),
      filepath_Join = sim_Join\<rparr>"

definition all_ok :: outcomes where
  "all_ok =
     \<lparr>on_pull = None, on_mkdir = Inr ''/tmp/sti'', on_copy = None, on_clone = None,
      on_checkout = None, on_guess = Inr ''run'', on_build = None\<rparr>"

definition s0 :: "string list exec" where
  "s0 = \<lparr>world = [], trace = []\<rparr>"

definition local_request :: Request where
  "local_request =
     \<lparr>DockerSocket = ''unix:///var/run/docker.sock'', BaseImage = ''base:latest'',
      Source = ''/tmp/app'', Ref = [], Tag = ''out:1'', ForcePull = False,
      PreserveWorkingDir = False, WorkingDir = []\<rparr>"

definition git_request :: Request where
  "git_request = local_request\<lparr>Source := ''git://host/app'', Ref := ''v1''\<rparr>"

text \<open>Outcome tables with one failure each, and a request that keeps its directory.\<close>

definition no_entrypoint :: outcomes where
  "no_entrypoint = all_ok\<lparr>on_guess := Inl (Error ''no entrypoint'')\<rparr>"

definition pull_fails :: outcomes where
  "pull_fails = all_ok\<lparr>on_pull := Some (Error ''pull failed'')\<rparr>"

definition no_space :: outcomes where
  "no_space = all_ok\<lparr>on_mkdir := Inl (Error ''no space'')\<rparr>"

definition build_fails :: outcomes where
  "build_fails = all_ok\<lparr>on_build := Some (Error ''build failed'')\<rparr>"

definition kept_request :: Request where
  "kept_request = local_request\<lparr>PreserveWorkingDir := True\<rparr>"

section \<open>Properties\<close>

subsection \<open>The shape of a run\<close>

lemma invoke_trace: "invoke c f s = (r, s') \<Longrightarrow> trace s' = trace s @ [c r]"
  by (auto simp: invoke_def split: prod.splits)

lemma trace_snd_invoke: "\<exists>r. trace (snd (invoke c f s)) = trace s @ [c r]"
  by (auto simp: invoke_def split: prod.splits)

lemma Prepare_shape:
  assumes "Prepare x b request s = (ret, request', s')"
  shows "(\<exists>po e. ret = Some e \<and> request' = request \<and>
            trace s' = trace s @ [pull_event request po, CallCreateWorkingDirectory (Inl e)])
       \<or> (\<exists>po d. request' = request\<lparr>Request.WorkingDir := d\<rparr> \<and>
            trace s' = trace s @
              [pull_event request po, CallCreateWorkingDirectory (Inr d), SetWorkingDir d,
               CallValidCloneSpec (Source request) False,
               CallCopy (Source request) (filepath_Join x [d, ''upload'', ''src'']) ret])
       \<or> (\<exists>po d. request' = request\<lparr>Request.WorkingDir := d\<rparr> \<and>
            (ret \<noteq> None \<or> Ref request = []) \<and>
            trace s' = trace s @
              [pull_event request po, CallCreateWorkingDirectory (Inr d), SetWorkingDir d,
               CallValidCloneSpec (Source request) True,
               CallClone (Source request) (filepath_Join x [d, ''upload'', ''src'']) ret])
       \<or> (\<exists>po d. request' = request\<lparr>Request.WorkingDir := d\<rparr> \<and>
            Ref request \<noteq> [] \<and>
            trace s' = trace s @
              [pull_event request po, CallCreateWorkingDirectory (Inr d), SetWorkingDir d,
               CallValidCloneSpec (Source request) True,
               CallClone (Source request) (filepath_Join x [d, ''upload'', ''src'']) None,
               CallCheckout (filepath_Join x [d, ''upload'', ''src'']) (Ref request) ret])"
proof -
  define s1 where "s1 =
    (if ForcePull request
     then snd (invoke (CallPullImage (BaseImage request))
                 (PullImage (docker b) (BaseImage request)) s)
     else snd (invoke (CallCheckAndPull (BaseImage request))
                 (CheckAndPull (docker b) (BaseImage request)) s))"
  have "\<exists>po. trace s1 = trace s @ [pull_event request po]"
    using trace_snd_invoke[of "CallPullImage (BaseImage request)" _ s]
      trace_snd_invoke[of "CallCheckAndPull (BaseImage request)" _ s]
    by (simp add: s1_def pull_event_def)
  then obtain po where po: "trace s1 = trace s @ [pull_event request po]"
    by blast
  obtain r1 s2 where cwd:
    "invoke CallCreateWorkingDirectory (CreateWorkingDirectory (fs b)) s1 = (r1, s2)"
    by (meson surj_pair)
  have t2: "trace s2 = trace s @ [pull_event request po, CallCreateWorkingDirectory r1]"
    using invoke_trace[OF cwd] po by simp
  show ?thesis
  proof (cases r1)
    case (Inl e)
    with assms cwd have "ret = Some e \<and> request' = request \<and> s' = s2"
      unfolding Prepare_def s1_def[symmetric] by (simp add: Let_def)
    with t2 Inl show ?thesis by blast
  next
    case (Inr d)
    let ?t = "filepath_Join x [d, ''upload'', ''src'']"
    obtain v s4 where vcs:
      "invoke (CallValidCloneSpec (Source request)) (ValidCloneSpec (git b) (Source request))
         (record_event (SetWorkingDir d) s2) = (v, s4)"
      by (meson surj_pair)
    have t4: "trace s4 = trace s @
        [pull_event request po, CallCreateWorkingDirectory (Inr d), SetWorkingDir d,
         CallValidCloneSpec (Source request) v]"
      using invoke_trace[OF vcs] t2 Inr by (simp add: record_event_def)
    show ?thesis
    proof (cases v)
      case False
      obtain r s5 where cp:
        "invoke (CallCopy (Source request) ?t) (Copy (fs b) (Source request) ?t) s4 = (r, s5)"
        by (meson surj_pair)
      from assms cwd Inr vcs False cp
      have "ret = r \<and> request' = request\<lparr>Request.WorkingDir := d\<rparr> \<and> s' = s5"
        unfolding Prepare_def s1_def[symmetric] by (simp add: Let_def)
      with invoke_trace[OF cp] t4 False show ?thesis by auto
    next
      case True
      obtain r s5 where cl:
        "invoke (CallClone (Source request) ?t) (Clone (git b) (Source request) ?t) s4 = (r, s5)"
        by (meson surj_pair)
      have t5: "trace s5 = trace s @
        [pull_event request po, CallCreateWorkingDirectory (Inr d), SetWorkingDir d,
         CallValidCloneSpec (Source request) True, CallClone (Source request) ?t r]"
        using invoke_trace[OF cl] t4 True by simp
      show ?thesis
      proof (cases "r = None \<and> Ref request \<noteq> []")
        case False
        with assms cwd Inr vcs True cl
        have "ret = r \<and> request' = request\<lparr>Request.WorkingDir := d\<rparr> \<and> s' = s5"
          unfolding Prepare_def s1_def[symmetric] by (auto simp: Let_def split: option.splits)
        with t5 False show ?thesis by auto
      next
        case ref: True
        obtain r' s6 where co:
          "invoke (CallCheckout ?t (Ref request)) (Checkout (git b) ?t (Ref request)) s5
             = (r', s6)"
          by (meson surj_pair)
        from assms cwd Inr vcs True cl ref co
        have "ret = r' \<and> request' = request\<lparr>Request.WorkingDir := d\<rparr> \<and> s' = s6"
          unfolding Prepare_def s1_def[symmetric] by (simp add: Let_def)
        with invoke_trace[OF co] t5 ref show ?thesis by auto
      qed
    qed
  qed
qed

lemma CreateDockerfile_shape:
  assumes "CreateDockerfile x b request s = (ret, request', s')"
  shows "request' = request \<and>
    ((\<exists>e. ret = Some e \<and> trace s' = trace s @
         [CallGuessEntrypoint
            (filepath_Join x [Request.WorkingDir request, ''upload'', ''src'']) (Inl e)])
     \<or> (\<exists>entrypoint. trace s' = trace s @
         [CallGuessEntrypoint
            (filepath_Join x [Request.WorkingDir request, ''upload'', ''src''])
            (Inr entrypoint),
          CallWriteFile
            (filepath_Join x
               [filepath_Join x [Request.WorkingDir request, ''upload'', ''src''],
                ''Dockerfile''])
            (Sprintf_FROM (BaseImage request) @ Sprintf_CMD entrypoint) ret]))"
  using assms unfolding CreateDockerfile_def Let_def
  by (auto split: prod.splits sum.splits dest!: invoke_trace)

lemma SourceTar_shape:
  assumes "SourceTar x b request s = (ret, request', s')"
  shows "request' = request \<and>
    ((\<exists>e. ret = Inl e \<and> trace s' = trace s @
         [CallCreateTarFile (Request.WorkingDir request)
            (filepath_Join x [Request.WorkingDir request, ''upload'', ''src'']) (Inl e)])
     \<or> (\<exists>f. trace s' = trace s @
         [CallCreateTarFile (Request.WorkingDir request)
            (filepath_Join x [Request.WorkingDir request, ''upload'', ''src'']) (Inr f),
          CallOpen f ret]))"
  using assms unfolding SourceTar_def Let_def
  by (auto split: prod.splits sum.splits dest!: invoke_trace)

lemma Cleanup_shape:
  assumes "Cleanup b request s = (request', s')"
  shows "request' = request \<and>
     (if PreserveWorkingDir request then s' = s
      else (\<exists>ro. trace s' = trace s @ [CallRemoveDirectory (Request.WorkingDir request) ro]))"
  using assms trace_snd_invoke[of "CallRemoveDirectory (Request.WorkingDir request)" _ s]
  unfolding Cleanup_def
  by (auto split: if_splits)

lemma Build_shape:
  assumes "Build x b request s = ((res, err), request', s')"
  shows "(\<exists>e. Prepare x b request s = (Some e, request', s') \<and> res = None \<and> err = Some e)
    \<or> (\<exists>e s1. Prepare x b request s = (None, request', s1) \<and>
          CreateDockerfile x b request' s1 = (Some e, request', s') \<and>
          res = None \<and> err = Some e)
    \<or> (\<exists>e s1 s2. Prepare x b request s = (None, request', s1) \<and>
          CreateDockerfile x b request' s1 = (None, request', s2) \<and>
          SourceTar x b request' s2 = (Inl e, request', s') \<and>
          res = None \<and> err = Some e)
    \<or> (\<exists>e t s1 s2 s3 co. Prepare x b request s = (None, request', s1) \<and>
          CreateDockerfile x b request' s1 = (None, request', s2) \<and>
          SourceTar x b request' s2 = (Inr t, request', s3) \<and>
          trace s' = trace s3 @
            [CallBuildImage \<lparr>Name = Tag request', Stdin = t, Stdout = os_Stdout\<rparr> (Some e),
             CallClose t co] \<and>
          res = None \<and> err = Some e)
    \<or> (\<exists>t s1 s2 s3 co. Prepare x b request s = (None, request', s1) \<and>
          CreateDockerfile x b request' s1 = (None, request', s2) \<and>
          SourceTar x b request' s2 = (Inr t, request', s3) \<and>
          (if PreserveWorkingDir request'
           then trace s' = trace s3 @
             [CallBuildImage \<lparr>Name = Tag request', Stdin = t, Stdout = os_Stdout\<rparr> None,
              CallClose t co]
           else (\<exists>ro. trace s' = trace s3 @
             [CallBuildImage \<lparr>Name = Tag request', Stdin = t, Stdout = os_Stdout\<rparr> None,
              CallRemoveDirectory (Request.WorkingDir request') ro,
              CallClose t co])) \<and>
          res = Some \<lparr>Success = True, Result.WorkingDir = Request.WorkingDir request',
                       ImageID = Tag request'\<rparr> \<and>
          err = None)"
proof -
  obtain pr r1 s1 where P: "Prepare x b request s = (pr, r1, s1)"
    by (meson prod_cases3)
  show ?thesis
  proof (cases pr)
    case (Some e)
    with assms P have "res = None \<and> err = Some e \<and> request' = r1 \<and> s' = s1"
      by (auto simp: Build_def)
    with P Some show ?thesis by auto
  next
    case pr: None
    obtain cr r2 s2 where C: "CreateDockerfile x b r1 s1 = (cr, r2, s2)"
      by (meson prod_cases3)
    have r2: "r2 = r1" using CreateDockerfile_shape[OF C] by simp
    show ?thesis
    proof (cases cr)
      case (Some e)
      with assms P pr C r2 have "res = None \<and> err = Some e \<and> request' = r1 \<and> s' = s2"
        by (auto simp: Build_def)
      with P pr C r2 Some show ?thesis by auto
    next
      case cr: None
      obtain tr r3 s3 where T: "SourceTar x b r1 s2 = (tr, r3, s3)"
        by (meson prod_cases3)
      have r3: "r3 = r1" using SourceTar_shape[OF T] by simp
      show ?thesis
      proof (cases tr)
        case (Inl e)
        with assms P pr C r2 cr T r3
        have "res = None \<and> err = Some e \<and> request' = r1 \<and> s' = s3"
          by (auto simp: Build_def)
        with P pr C r2 cr T r3 Inl show ?thesis by auto
      next
        case (Inr t)
        let ?opts = "\<lparr>Name = Tag r1, Stdin = t, Stdout = os_Stdout\<rparr>"
        obtain bo s4 where B:
          "invoke (CallBuildImage ?opts) (BuildImage (docker b) ?opts) s3 = (bo, s4)"
          by (meson surj_pair)
        have t4: "trace s4 = trace s3 @ [CallBuildImage ?opts bo]"
          using invoke_trace[OF B] .
        show ?thesis
        proof (cases bo)
          case (Some e)
          obtain co where co:
            "trace (snd (invoke (CallClose t) (Close x t) s4)) = trace s4 @ [CallClose t co]"
            using trace_snd_invoke[of "CallClose t" "Close x t" s4] by blast
          from assms P pr C r2 cr T r3 Inr B Some
          have "res = None \<and> err = Some e \<and> request' = r1 \<and>
                s' = snd (invoke (CallClose t) (Close x t) s4)"
            by (auto simp: Build_def Let_def)
          with P pr C r2 cr T r3 Inr t4 Some co show ?thesis by auto
        next
          case bo: None
          obtain r5 s5 where K: "Cleanup b r1 s4 = (r5, s5)"
            by (meson surj_pair)
          have r5: "r5 = r1" using Cleanup_shape[OF K] by simp
          obtain co where co:
            "trace (snd (invoke (CallClose t) (Close x t) s5)) = trace s5 @ [CallClose t co]"
            using trace_snd_invoke[of "CallClose t" "Close x t" s5] by blast
          from assms P pr C r2 cr T r3 Inr B bo K r5
          have fin: "res = Some \<lparr>Success = True, Result.WorkingDir = Request.WorkingDir r1,
                          ImageID = Tag r1\<rparr> \<and> err = None \<and> request' = r1 \<and>
                s' = snd (invoke (CallClose t) (Close x t) s5)"
            by (auto simp: Build_def Let_def)
          have "if PreserveWorkingDir r1
                then trace s' = trace s3 @ [CallBuildImage ?opts None, CallClose t co]
                else (\<exists>ro. trace s' = trace s3 @
                        [CallBuildImage ?opts None,
                         CallRemoveDirectory (Request.WorkingDir r1) ro, CallClose t co])"
            using Cleanup_shape[OF K] fin co t4 bo by auto
          with P pr C r2 cr T r3 Inr fin show ?thesis by auto
        qed
      qed
    qed
  qed
qed

lemma issued_append: "trace s' = trace s @ evs \<Longrightarrow> issued s s' = evs"
  by (simp add: issued_def)

lemma removals_append: "removals (xs @ ys) = removals xs @ removals ys"
  by (induction xs rule: removals.induct) simp_all

lemma assignments_append: "assignments (xs @ ys) = assignments xs @ assignments ys"
  by (induction xs rule: assignments.induct) simp_all

lemma builds_append: "builds (xs @ ys) = builds xs @ builds ys"
  by (induction xs rule: builds.induct) simp_all

lemma pull_event_observed [simp]:
  "removals (pull_event request po # evs) = removals evs"
  "builds (pull_event request po # evs) = builds evs"
  "assignments (pull_event request po # evs) = assignments evs"
  "copies (pull_event request po # evs) = copies evs"
  "clones (pull_event request po # evs) = clones evs"
  "checkouts (pull_event request po # evs) = checkouts evs"
  by (simp_all add: pull_event_def)

lemma pull_event_neq [simp]:
  "pull_event request po \<noteq> CallCreateWorkingDirectory r"
  "pull_event request po \<noteq> CallValidCloneSpec src v"
  "pull_event request po \<noteq> CallClone src dst cr"
  "pull_event request po \<noteq> CallGuessEntrypoint dir g"
  by (simp_all add: pull_event_def)

lemma Prepare_events:
  assumes "Prepare x b request s = (ret, request', s')"
  shows "\<exists>evs. trace s' = trace s @ evs \<and> removals evs = [] \<and> builds evs = []"
  using Prepare_shape[OF assms] by (elim disjE exE conjE) simp_all

lemma CreateDockerfile_events:
  assumes "CreateDockerfile x b request s = (ret, request', s')"
  shows "\<exists>evs. trace s' = trace s @ evs \<and> removals evs = [] \<and> builds evs = [] \<and>
           assignments evs = [] \<and>
           list_all (located_under (filepath_Join x) (Request.WorkingDir request)) evs"
  using CreateDockerfile_shape[OF assms] by (elim disjE exE conjE) simp_all

lemma SourceTar_events:
  assumes "SourceTar x b request s = (ret, request', s')"
  shows "\<exists>evs. trace s' = trace s @ evs \<and> removals evs = [] \<and> builds evs = [] \<and>
           assignments evs = [] \<and>
           list_all (located_under (filepath_Join x) (Request.WorkingDir request)) evs \<and>
           (\<forall>t. ret = Inr t \<longrightarrow> (\<exists>f. CallOpen f (Inr t) \<in> set evs))"
  using SourceTar_shape[OF assms] by (elim disjE exE conjE) simp_all

lemmas sim_defs =
  Build_def Prepare_def CreateDockerfile_def SourceTar_def Cleanup_def invoke_def
  record_event_def Let_def sim_x_def sim_b_def sim_docker_def sim_git_def sim_fs_def
  sim_tar_def all_ok_def s0_def local_request_def git_request_def Sprintf_FROM_def
  Sprintf_CMD_def no_entrypoint_def pull_fails_def no_space_def build_fails_def
  kept_request_def

lemma local_run_eval:
  "Build (sim_x all_ok) (sim_b all_ok) local_request s0 =
     ((Some \<lparr>Success = True, Result.WorkingDir = ''/tmp/sti'', ImageID = ''out:1''\<rparr>, None),
      local_request\<lparr>Request.WorkingDir := ''/tmp/sti''\<rparr>,
      \<lparr>world = [],
       trace =
         [CallCheckAndPull ''base:latest'' None,
          CallCreateWorkingDirectory (Inr ''/tmp/sti''),
          SetWorkingDir ''/tmp/sti'',
          CallValidCloneSpec ''/tmp/app'' False,
          CallCopy ''/tmp/app'' ''/tmp/sti/upload/src'' None,
          CallGuessEntrypoint ''/tmp/sti/upload/src'' (Inr ''run''),
          CallWriteFile ''/tmp/sti/upload/src/Dockerfile''
            (''FROM base:latest'' @ [CHR 0x0A] @ ''CMD ['' @ [CHR 0x22] @ ''run'' @
             [CHR 0x22] @ '']'' @ [CHR 0x0A]) None,
          CallCreateTarFile ''/tmp/sti'' ''/tmp/sti/upload/src'' (Inr ''/tmp/sti.tar''),
          CallOpen ''/tmp/sti.tar'' (Inr (ReadCloser 3)),
          CallBuildImage \<lparr>Name = ''out:1'', Stdin = ReadCloser 3, Stdout = os_Stdout\<rparr> None,
          CallRemoveDirectory ''/tmp/sti'' None,
          CallClose (ReadCloser 3) None]\<rparr>)"
  by (simp add: sim_defs)

lemma issued_s0: "issued s0 s = trace s"
  by (simp add: issued_def s0_def)

lemma request_flags:
  "\<not> PreserveWorkingDir local_request" "\<not> ForcePull local_request"
  "PreserveWorkingDir kept_request" "\<not> PreserveWorkingDir git_request"
  by (simp_all add: local_request_def kept_request_def git_request_def)

lemma kept_run_eval:
  "Build (sim_x all_ok) (sim_b all_ok) kept_request s0 =
     ((Some \<lparr>Success = True, Result.WorkingDir = ''/tmp/sti'', ImageID = ''out:1''\<rparr>, None),
      kept_request\<lparr>Request.WorkingDir := ''/tmp/sti''\<rparr>,
      \<lparr>world = [''/tmp/sti''],
       trace =
         [CallCheckAndPull ''base:latest'' None,
          CallCreateWorkingDirectory (Inr ''/tmp/sti''),
          SetWorkingDir ''/tmp/sti'',
          CallValidCloneSpec ''/tmp/app'' False,
          CallCopy ''/tmp/app'' ''/tmp/sti/upload/src'' None,
          CallGuessEntrypoint ''/tmp/sti/upload/src'' (Inr ''run''),
          CallWriteFile ''/tmp/sti/upload/src/Dockerfile''
            (''FROM base:latest'' @ [CHR 0x0A] @ ''CMD ['' @ [CHR 0x22] @ ''run'' @
             [CHR 0x22] @ '']'' @ [CHR 0x0A]) None,
          CallCreateTarFile ''/tmp/sti'' ''/tmp/sti/upload/src'' (Inr ''/tmp/sti.tar''),
          CallOpen ''/tmp/sti.tar'' (Inr (ReadCloser 3)),
          CallBuildImage \<lparr>Name = ''out:1'', Stdin = ReadCloser 3, Stdout = os_Stdout\<rparr> None,
          CallClose (ReadCloser 3) None]\<rparr>)"
  by (simp add: sim_defs)

lemma no_entrypoint_run_eval:
  "Build (sim_x no_entrypoint) (sim_b no_entrypoint) local_request s0 =
     ((None, Some (Error ''no entrypoint'')),
      local_request\<lparr>Request.WorkingDir := ''/tmp/sti''\<rparr>,
      \<lparr>world = [''/tmp/sti''],
       trace =
         [CallCheckAndPull ''base:latest'' None,
          CallCreateWorkingDirectory (Inr ''/tmp/sti''),
          SetWorkingDir ''/tmp/sti'',
          CallValidCloneSpec ''/tmp/app'' False,
          CallCopy ''/tmp/app'' ''/tmp/sti/upload/src'' None,
          CallGuessEntrypoint ''/tmp/sti/upload/src'' (Inl (Error ''no entrypoint''))]\<rparr>)"
  by (simp add: sim_defs)

lemma Build_request:
  assumes "Build x b request s = (ret, request', s')"
  shows "request' = request\<lparr>Request.WorkingDir := Request.WorkingDir request'\<rparr>"
proof -
  obtain res err where "ret = (res, err)" by (cases ret)
  with assms have B: "Build x b request s = ((res, err), request', s')" by simp
  from Build_shape[OF B] obtain pr s1 where "Prepare x b request s = (pr, request', s1)"
    by blast
  from Prepare_shape[OF this] show ?thesis
    by (elim disjE exE conjE) simp_all
qed

lemma Build_success:
  assumes "Build x b request s = ((Some r, err), request', s')"
  shows "\<exists>pre t co tail. err = None \<and>
           r = \<lparr>Success = True, Result.WorkingDir = Request.WorkingDir request',
                ImageID = Tag request'\<rparr> \<and>
           removals pre = [] \<and> builds pre = [] \<and>
           (\<exists>f. CallOpen f (Inr t) \<in> set pre) \<and>
           issued s s' = pre @
             [CallBuildImage \<lparr>Name = Tag request', Stdin = t, Stdout = os_Stdout\<rparr> None] @
             tail @ [CallClose t co] \<and>
           (if PreserveWorkingDir request' then tail = []
            else (\<exists>ro. tail = [CallRemoveDirectory (Request.WorkingDir request') ro]))"
proof -
  let ?opts = "\<lambda>t. \<lparr>Name = Tag request', Stdin = t, Stdout = os_Stdout\<rparr>"
  from Build_shape[OF assms] obtain t s1 s2 s3 co where
    P: "Prepare x b request s = (None, request', s1)" and
    C: "CreateDockerfile x b request' s1 = (None, request', s2)" and
    T: "SourceTar x b request' s2 = (Inr t, request', s3)" and
    tr: "if PreserveWorkingDir request'
         then trace s' = trace s3 @ [CallBuildImage (?opts t) None, CallClose t co]
         else (\<exists>ro. trace s' = trace s3 @
                 [CallBuildImage (?opts t) None,
                  CallRemoveDirectory (Request.WorkingDir request') ro, CallClose t co])" and
    r: "r = \<lparr>Success = True, Result.WorkingDir = Request.WorkingDir request',
              ImageID = Tag request'\<rparr>" and
    e: "err = None"
    by (elim disjE exE conjE) simp_all
  obtain e1 where e1: "trace s1 = trace s @ e1" "removals e1 = []" "builds e1 = []"
    using Prepare_events[OF P] by blast
  obtain e2 where e2: "trace s2 = trace s1 @ e2" "removals e2 = []" "builds e2 = []"
    using CreateDockerfile_events[OF C] by blast
  obtain e3 where e3: "trace s3 = trace s2 @ e3" "removals e3 = []" "builds e3 = []"
    "\<exists>f. CallOpen f (Inr t) \<in> set e3"
    using SourceTar_events[OF T] by blast
  let ?pre = "e1 @ e2 @ e3"
  have pre: "removals ?pre = []" "builds ?pre = []" "\<exists>f. CallOpen f (Inr t) \<in> set ?pre"
    using e1 e2 e3 by (auto simp: removals_append builds_append)
  have s3: "trace s3 = trace s @ ?pre" using e1 e2 e3 by simp
  from tr obtain tail where
    tail: "trace s' = trace s3 @ [CallBuildImage (?opts t) None] @ tail @ [CallClose t co]"
      "if PreserveWorkingDir request' then tail = []
       else (\<exists>ro. tail = [CallRemoveDirectory (Request.WorkingDir request') ro])"
    by (cases "PreserveWorkingDir request'") auto
  have "issued s s' = ?pre @ [CallBuildImage (?opts t) None] @ tail @ [CallClose t co]"
    using tail(1) s3 by (simp add: issued_def)
  with pre tail(2) r e show ?thesis by blast
qed

lemma Build_failure:
  assumes "Build x b request s = ((None, err), request', s')"
  shows "removals (issued s s') = []"
proof -
  from Build_shape[OF assms] consider
    (prepare) e where "Prepare x b request s = (Some e, request', s')"
  | (dockerfile) e s1 where "Prepare x b request s = (None, request', s1)"
      "CreateDockerfile x b request' s1 = (Some e, request', s')"
  | (tar) e s1 s2 where "Prepare x b request s = (None, request', s1)"
      "CreateDockerfile x b request' s1 = (None, request', s2)"
      "SourceTar x b request' s2 = (Inl e, request', s')"
  | (build) e t s1 s2 s3 co where "Prepare x b request s = (None, request', s1)"
      "CreateDockerfile x b request' s1 = (None, request', s2)"
      "SourceTar x b request' s2 = (Inr t, request', s3)"
      "trace s' = trace s3 @
         [CallBuildImage \<lparr>Name = Tag request', Stdin = t, Stdout = os_Stdout\<rparr> (Some e),
          CallClose t co]"
    by (elim disjE exE conjE) simp_all
  then show ?thesis
  proof cases
    case prepare
    from Prepare_events[OF prepare] show ?thesis
      by (auto simp: issued_def)
  next
    case dockerfile
    from Prepare_events[OF dockerfile(1)] CreateDockerfile_events[OF dockerfile(2)]
    show ?thesis by (auto simp: issued_def removals_append)
  next
    case tar
    from Prepare_events[OF tar(1)] CreateDockerfile_events[OF tar(2)]
      SourceTar_events[OF tar(3)]
    show ?thesis by (auto simp: issued_def removals_append)
  next
    case build
    from Prepare_events[OF build(1)] CreateDockerfile_events[OF build(2)]
      SourceTar_events[OF build(3)] build(4)
    show ?thesis by (auto simp: issued_def removals_append)
  qed
qed

subsection \<open>Cleanup\<close>

text \<open>
  Claim C1, as amended. \<open>Build\<close> calls \<open>Cleanup\<close> in one place only, after the engine
  build has succeeded. So: when \<open>PreserveWorkingDir\<close> is set, \<open>Build\<close> never calls
  \<open>RemoveDirectory\<close>, whatever it returns; when it is not set and \<open>Build\<close> returns a
  result, \<open>RemoveDirectory\<close> has been called exactly once, on \<open>request.WorkingDir\<close>.
  Nothing is promised about removal when \<open>Build\<close> returns an error.
\<close>

theorem Build_cleanup:
  assumes "Build x b request s = ((res, err), request', s')"
  shows "(PreserveWorkingDir request \<longrightarrow> removals (issued s s') = []) \<and>
         (\<not> PreserveWorkingDir request \<and> res \<noteq> None \<longrightarrow>
            removals (issued s s') = [Request.WorkingDir request'])"
proof -
  have keep: "PreserveWorkingDir request' = PreserveWorkingDir request"
    using Build_request[OF assms] by (metis Request.select_convs(7) Request.surjective Request.update_convs(8))
  show ?thesis
  proof (cases res)
    case None
    with assms Build_failure show ?thesis by blast
  next
    case (Some r)
    with assms have "Build x b request s = ((Some r, err), request', s')" by simp
    from Build_success[OF this] keep Some show ?thesis
      by (auto simp: removals_append)
  qed
qed

text \<open>
  A run that keeps its directory and a run that removes it, both successful.
\<close>

theorem Build_cleanup_witness:
  "PreserveWorkingDir kept_request \<and>
   removals (issued s0 (snd (snd (Build (sim_x all_ok) (sim_b all_ok) kept_request s0)))) = [] \<and>
   \<not> PreserveWorkingDir local_request \<and>
   fst (fst (Build (sim_x all_ok) (sim_b all_ok) local_request s0)) \<noteq> None \<and>
   removals (issued s0 (snd (snd (Build (sim_x all_ok) (sim_b all_ok) local_request s0))))
     = [''/tmp/sti'']"
  using Build_cleanup[OF kept_run_eval] Build_cleanup[OF local_run_eval]
  by (simp add: kept_run_eval local_run_eval request_flags)

text \<open>
  Claim C1 as stated fails: with \<open>PreserveWorkingDir = false\<close> and an entrypoint
  inference that fails, \<open>Build\<close> returns that error, has called no \<open>RemoveDirectory\<close>,
  and the working directory is still there.
\<close>

theorem Build_failure_skips_cleanup:
  "\<not> PreserveWorkingDir local_request \<and>
   fst (Build (sim_x no_entrypoint) (sim_b no_entrypoint) local_request s0)
     = (None, Some (Error ''no entrypoint'')) \<and>
   removals (issued s0 (snd (snd (Build (sim_x no_entrypoint) (sim_b no_entrypoint)
      local_request s0)))) = [] \<and>
   world (snd (snd (Build (sim_x no_entrypoint) (sim_b no_entrypoint) local_request s0)))
     = [''/tmp/sti'']"
  by (simp add: no_entrypoint_run_eval request_flags issued_s0)

end
